theory Spec2Isabelle
  imports Main "HOL-Library.Word" "HOL-Library.Sublist"
begin

section \<open>JavaScript strings\<close>

text \<open>
  A JavaScript string is a sequence of UTF-16 code units: \<open>s.length\<close> counts code units
  and \<open>===\<close> on strings compares the sequences. String literals of the source are ASCII
  and are written \<open>lit ''...''\<close>.
\<close>

type_synonym jsstring = "16 word list"

definition lit :: "string \<Rightarrow> jsstring" where
  "lit s = map (\<lambda>c. of_nat (of_char c)) s"

text \<open>
  \<open>String.prototype.trim\<close> removes WhiteSpace and LineTerminator code units (ECMAScript:
  TAB, VT, FF, SP, NBSP, ZWNBSP, the Unicode space separators, LF, CR, LS, PS) from both
  ends of the string.
\<close>

definition isWhiteSpace :: "16 word \<Rightarrow> bool" where
  "isWhiteSpace c =
     (c \<in> {0x9, 0xA, 0xB, 0xC, 0xD, 0x20, 0xA0, 0x1680, 0x2028, 0x2029, 0x202F, 0x205F,
            0x3000, 0xFEFF}
      \<or> (0x2000 \<le> c \<and> c \<le> 0x200A))"

definition trim :: "jsstring \<Rightarrow> jsstring" where
  "trim s = rev (dropWhile isWhiteSpace (rev (dropWhile isWhiteSpace s)))"


section \<open>types/index.ts: the data declarations\<close>

subsection \<open>Interfaces as declarations\<close>

text \<open>
  An interface is a list of property declarations, \<open>name: T\<close> (required) or \<open>name?: T\<close>
  (optional). The property types that occur are \<open>string\<close>, \<open>number\<close>, \<open>boolean\<close>,
  \<open>string[]\<close> and unions of string literals. A value received from the API is a JSON
  object; it conforms to an interface when every required property is present and every
  present declared property has its declared type.
\<close>

datatype ts_type = TString | TNumber | TBoolean | TStringArray | TLiteral "jsstring list"

datatype field = Required jsstring ts_type | Optional jsstring ts_type

type_synonym interface = "field list"

datatype js_value = JString jsstring | JNumber int | JBoolean bool | JStringArray "jsstring list"

type_synonym js_object = "jsstring \<rightharpoonup> js_value"

fun has_type :: "ts_type \<Rightarrow> js_value \<Rightarrow> bool" where
  "has_type TString (JString s) = True"
| "has_type TNumber (JNumber n) = True"
| "has_type TBoolean (JBoolean b) = True"
| "has_type TStringArray (JStringArray xs) = True"
| "has_type (TLiteral ls) (JString s) = (s \<in> set ls)"
| "has_type _ _ = False"

fun field_name :: "field \<Rightarrow> jsstring" where
  "field_name (Required n t) = n"
| "field_name (Optional n t) = n"

fun field_ok :: "js_object \<Rightarrow> field \<Rightarrow> bool" where
  "field_ok obj (Required n t) = (case obj n of None \<Rightarrow> False | Some v \<Rightarrow> has_type t v)"
| "field_ok obj (Optional n t) = (case obj n of None \<Rightarrow> True | Some v \<Rightarrow> has_type t v)"

definition conforms :: "interface \<Rightarrow> js_object \<Rightarrow> bool" where
  "conforms I obj = list_all (field_ok obj) I"

text \<open>The declaration of a property in an interface, if there is one.\<close>

definition declared :: "interface \<Rightarrow> jsstring \<Rightarrow> field option" where
  "declared I n = find (\<lambda>f. field_name f = n) I"

subsection \<open>Group (lines 37-54)\<close>

definition Group_interface :: interface where
  "Group_interface =
     [Required (lit ''id'') TString,
      Required (lit ''name'') TString,
      Required (lit ''description'') TString,
      Required (lit ''category'') TString,
      Required (lit ''industry'') TString,
      Required (lit ''privacy'') (TLiteral [lit ''public'', lit ''private'', lit ''invite_only'']),
      Required (lit ''max_members'') TNumber,
      Required (lit ''current_members'') TNumber,
      Required (lit ''created_by'') TString,
      Required (lit ''created_at'') TString,
      Required (lit ''updated_at'') TString,
      Required (lit ''is_active'') TBoolean,
      Required (lit ''tags'') TStringArray,
      Optional (lit ''location'') TString,
      Optional (lit ''website'') TString,
      Optional (lit ''contact_email'') TString]"

subsection \<open>Invitation and CreateInvitationRequest (lines 81-100)\<close>

definition Invitation_interface :: interface where
  "Invitation_interface =
     [Required (lit ''id'') TString,
      Required (lit ''group_id'') TString,
      Required (lit ''group_name'') TString,
      Required (lit ''invited_by'') TString,
      Required (lit ''invited_by_name'') TString,
      Required (lit ''invited_email'') TString,
      Required (lit ''status'')
        (TLiteral [lit ''pending'', lit ''accepted'', lit ''declined'', lit ''expired'']),
      Required (lit ''role'') (TLiteral [lit ''admin'', lit ''member'']),
      Required (lit ''created_at'') TString,
      Required (lit ''expires_at'') TString,
      Optional (lit ''message'') TString]"

definition CreateInvitationRequest_interface :: interface where
  "CreateInvitationRequest_interface =
     [Required (lit ''group_id'') TString,
      Required (lit ''email'') TString,
      Required (lit ''role'') (TLiteral [lit ''admin'', lit ''member'']),
      Optional (lit ''message'') TString]"

subsection \<open>Records the code computes with\<close>

text \<open>
  \<open>User\<close> (lines 2-17) and \<open>CreateGroupRequest\<close> (lines 67-78) as records; an optional
  property is an \<open>option\<close>, \<open>number\<close> is an integer (a member count), and the privacy union
  \<open>'public' | 'private' | 'invite_only'\<close> is a datatype with its literal.
\<close>

record User =
  uid :: jsstring
  email :: jsstring
  display_name :: jsstring
  photo_url :: "jsstring option"
  phone_number :: "jsstring option"
  company_name :: "jsstring option"
  job_title :: "jsstring option"
  industry :: "jsstring option"
  location :: "jsstring option"
  bio :: "jsstring option"
  created_at :: jsstring
  updated_at :: jsstring
  is_verified :: bool
  is_active :: bool

datatype privacy = Public | Private | Invite_only

fun privacy_literal :: "privacy \<Rightarrow> jsstring" where
  "privacy_literal Public = lit ''public''"
| "privacy_literal Private = lit ''private''"
| "privacy_literal Invite_only = lit ''invite_only''"

record CreateGroupRequest =
  name :: jsstring
  description :: jsstring
  category :: jsstring
  industry :: jsstring
  privacy :: privacy
  max_members :: int
  tags :: "jsstring list"
  location :: "jsstring option"
  website :: "jsstring option"
  contact_email :: "jsstring option"


section \<open>services/api.ts: the ApiService\<close>

subsection \<open>Browser state and effects\<close>

text \<open>
  The part of the browser the service touches: \<open>localStorage\<close> (a string-to-string store,
  \<open>getItem\<close> returns \<open>null\<close> for a missing key) and \<open>window.location.href\<close>.
\<close>

record browser =
  localStorage :: "jsstring \<rightharpoonup> jsstring"
  href :: jsstring

definition getItem :: "browser \<Rightarrow> jsstring \<Rightarrow> jsstring option" where
  "getItem b k = localStorage b k"

text \<open>
  The calls a handler makes on the browser, in program order, and what each does to the
  browser state.
\<close>

datatype effect = RemoveItem jsstring | SetLocationHref jsstring

fun perform :: "effect \<Rightarrow> browser \<Rightarrow> browser" where
  "perform (RemoveItem k) b = b\<lparr>localStorage := (localStorage b)(k := None)\<rparr>"
| "perform (SetLocationHref u) b = b\<lparr>href := u\<rparr>"

definition run_effects :: "effect list \<Rightarrow> browser \<Rightarrow> browser" where
  "run_effects es b = fold perform es b"

subsection \<open>Requests and the request interceptor (api.ts, lines 30-42)\<close>

datatype http_method = GET | POST | PUT | DELETE

record request_config =
  http_method :: http_method
  url :: jsstring
  headers :: "jsstring \<rightharpoonup> jsstring"

text \<open>
  \<^verbatim>\<open>(config) => { const token = localStorage.getItem('auth_token');
                 if (token) { config.headers.Authorization = `Bearer ${token}`; }
                 return config; }\<close>
  \<open>token\<close> has type \<open>string | null\<close>; the test \<open>if (token)\<close> fails for \<open>null\<close> and for
  the empty string, and succeeds for every other string.
\<close>

definition request_onFulfilled :: "browser \<Rightarrow> request_config \<Rightarrow> request_config" where
  "request_onFulfilled b config =
     (case getItem b (lit ''auth_token'') of
        None \<Rightarrow> config
      | Some token \<Rightarrow>
          if token \<noteq> []
          then config\<lparr>headers := (headers config)(lit ''Authorization'' \<mapsto> lit ''Bearer '' @ token)\<rparr>
          else config)"

subsection \<open>The endpoints (api.ts, lines 58-218)\<close>

text \<open>
  One constructor per method of the class, with the arguments that enter the URL.
  Each method issues one request on the instance; request bodies and query parameters
  do not enter the URL and are left out. The \<open>url\<close> of a request is the string the method
  hands to axios: a template literal with the arguments interpolated as they are, not
  escaped, and not yet resolved against the base URL or parsed. The instance's default
  header is \<open>Content-Type: application/json\<close>; \<open>uploadFile\<close> overrides it.
\<close>

datatype api_call =
    login | register | logout | refreshToken
  | getCurrentUser | updateProfile | getUserProfile jsstring
  | getGroups | getGroup jsstring | createGroup | updateGroup jsstring | deleteGroup jsstring
  | joinGroup jsstring | leaveGroup jsstring | getGroupMembers jsstring
  | updateMemberRole jsstring jsstring | removeMember jsstring jsstring
  | getInvitations | getSentInvitations | createInvitation
  | acceptInvitation jsstring | declineInvitation jsstring | cancelInvitation jsstring
  | uploadFile | getGroupFiles jsstring | getUserFiles | deleteFile jsstring
  | searchGroups | searchUsers

definition json_request :: "http_method \<Rightarrow> jsstring \<Rightarrow> request_config" where
  "json_request m u =
     \<lparr>http_method = m, url = u,
      headers = [lit ''Content-Type'' \<mapsto> lit ''application/json'']\<rparr>"

fun request_of :: "api_call \<Rightarrow> request_config" where
  "request_of login = json_request POST (lit ''/auth/login'')"
| "request_of register = json_request POST (lit ''/auth/register'')"
| "request_of logout = json_request POST (lit ''/auth/logout'')"
| "request_of refreshToken = json_request POST (lit ''/auth/refresh'')"
| "request_of getCurrentUser = json_request GET (lit ''/users/me'')"
| "request_of updateProfile = json_request PUT (lit ''/users/me'')"
| "request_of (getUserProfile uid') = json_request GET (lit ''/users/'' @ uid')"
| "request_of getGroups = json_request GET (lit ''/groups'')"
| "request_of (getGroup groupId) = json_request GET (lit ''/groups/'' @ groupId)"
| "request_of createGroup = json_request POST (lit ''/groups'')"
| "request_of (updateGroup groupId) = json_request PUT (lit ''/groups/'' @ groupId)"
| "request_of (deleteGroup groupId) = json_request DELETE (lit ''/groups/'' @ groupId)"
| "request_of (joinGroup groupId) = json_request POST (lit ''/groups/'' @ groupId @ lit ''/join'')"
| "request_of (leaveGroup groupId) = json_request POST (lit ''/groups/'' @ groupId @ lit ''/leave'')"
| "request_of (getGroupMembers groupId) =
     json_request GET (lit ''/groups/'' @ groupId @ lit ''/members'')"
| "request_of (updateMemberRole groupId memberId) =
     json_request PUT (lit ''/groups/'' @ groupId @ lit ''/members/'' @ memberId)"
| "request_of (removeMember groupId memberId) =
     json_request DELETE (lit ''/groups/'' @ groupId @ lit ''/members/'' @ memberId)"
| "request_of getInvitations = json_request GET (lit ''/invitations'')"
| "request_of getSentInvitations = json_request GET (lit ''/invitations/sent'')"
| "request_of createInvitation = json_request POST (lit ''/invitations'')"
| "request_of (acceptInvitation invitationId) =
     json_request POST (lit ''/invitations/'' @ invitationId @ lit ''/accept'')"
| "request_of (declineInvitation invitationId) =
     json_request POST (lit ''/invitations/'' @ invitationId @ lit ''/decline'')"
| "request_of (cancelInvitation invitationId) =
     json_request DELETE (lit ''/invitations/'' @ invitationId)"
| "request_of uploadFile =
     (json_request POST (lit ''/uploads''))
       \<lparr>headers := [lit ''Content-Type'' \<mapsto> lit ''multipart/form-data'']\<rparr>"
| "request_of (getGroupFiles groupId) = json_request GET (lit ''/uploads/group/'' @ groupId)"
| "request_of getUserFiles = json_request GET (lit ''/uploads/user'')"
| "request_of (deleteFile fileId) = json_request DELETE (lit ''/uploads/'' @ fileId)"
| "request_of searchGroups = json_request GET (lit ''/groups/search'')"
| "request_of searchUsers = json_request GET (lit ''/users/search'')"

text \<open>A request leaves the service through the request interceptor.\<close>

definition send :: "browser \<Rightarrow> api_call \<Rightarrow> request_config" where
  "send b c = request_onFulfilled b (request_of c)"

subsection \<open>Responses and the response interceptor (api.ts, lines 44-55)\<close>

text \<open>
  Of a response only the status is read; an error carries the response that caused it,
  or none (\<open>error.response\<close> is undefined for a network failure).
\<close>

record AxiosResponse =
  status :: int

record AxiosError =
  response :: "AxiosResponse option"

datatype settled = Fulfilled AxiosResponse | Rejected AxiosError

text \<open>
  The instance of line 23 is created without a \<open>validateStatus\<close> option, so axios applies
  its default, \<open>status >= 200 && status < 300\<close>: a response with another status rejects
  the request with an error that carries the response.
\<close>

definition validateStatus :: "int \<Rightarrow> bool" where
  "validateStatus s = (200 \<le> s \<and> s < 300)"

definition settle :: "AxiosResponse \<Rightarrow> settled" where
  "settle r = (if validateStatus (status r) then Fulfilled r else Rejected \<lparr>response = Some r\<rparr>)"

text \<open>\<^verbatim>\<open>(response) => response\<close>\<close>

definition response_onFulfilled :: "AxiosResponse \<Rightarrow> effect list \<times> settled" where
  "response_onFulfilled r = ([], Fulfilled r)"

text \<open>
  \<^verbatim>\<open>(error) => { if (error.response?.status === 401) {
                  localStorage.removeItem('auth_token');
                  localStorage.removeItem('user');
                  window.location.href = '/login'; }
                return Promise.reject(error); }\<close>
\<close>

definition response_onRejected :: "AxiosError \<Rightarrow> effect list \<times> settled" where
  "response_onRejected error =
     (if map_option status (response error) = Some 401
      then [RemoveItem (lit ''auth_token''), RemoveItem (lit ''user''),
            SetLocationHref (lit ''/login'')]
      else [],
      Rejected error)"

fun response_interceptor :: "settled \<Rightarrow> effect list \<times> settled" where
  "response_interceptor (Fulfilled r) = response_onFulfilled r"
| "response_interceptor (Rejected e) = response_onRejected e"

definition receive :: "AxiosResponse \<Rightarrow> effect list \<times> settled" where
  "receive r = response_interceptor (settle r)"


section \<open>contexts/AuthContext.tsx: the reducer (lines 5-66)\<close>

record AuthState =
  user :: "User option"
  isAuthenticated :: bool
  isLoading :: bool
  error :: "jsstring option"

text \<open>
  The five actions of the type \<open>AuthAction\<close>. The reducer's \<open>switch\<close> has a \<open>default\<close>
  branch for an action of any other type, which \<open>OTHER\<close> stands for.
\<close>

datatype AuthAction =
    AUTH_START
  | AUTH_SUCCESS User
  | AUTH_FAILURE jsstring
  | AUTH_LOGOUT
  | CLEAR_ERROR
  | OTHER jsstring

definition initialState :: AuthState where
  "initialState = \<lparr>user = None, isAuthenticated = False, isLoading = True, error = None\<rparr>"

fun authReducer :: "AuthState \<Rightarrow> AuthAction \<Rightarrow> AuthState" where
  "authReducer state AUTH_START = state\<lparr>isLoading := True, error := None\<rparr>"
| "authReducer state (AUTH_SUCCESS payload) =
     state\<lparr>user := Some payload, isAuthenticated := True, isLoading := False, error := None\<rparr>"
| "authReducer state (AUTH_FAILURE payload) =
     state\<lparr>user := None, isAuthenticated := False, isLoading := False, error := Some payload\<rparr>"
| "authReducer state AUTH_LOGOUT =
     state\<lparr>user := None, isAuthenticated := False, isLoading := False, error := None\<rparr>"
| "authReducer state CLEAR_ERROR = state\<lparr>error := None\<rparr>"
| "authReducer state (OTHER t) = state"


section \<open>pages/CreateGroupPage.tsx: the group-creation form\<close>

subsection \<open>Component state (lines 37-51)\<close>

text \<open>
  \<open>errors\<close> is an object used as a dictionary; it is kept as the list of its properties
  in insertion order, so that \<open>Object.keys\<close> is the list of first components.
\<close>

record page_state =
  formData :: CreateGroupRequest
  newTag :: jsstring
  errors :: "(jsstring \<times> jsstring) list"
  isSubmitting :: bool

definition initial_page :: page_state where
  "initial_page =
     \<lparr>formData =
        \<lparr>name = [], description = [], category = [], industry = [], privacy = Public,
         max_members = 50, tags = [], location = Some [], website = None,
         contact_email = None\<rparr>,
      newTag = [], errors = [], isSubmitting = False\<rparr>"

definition setNewTag :: "jsstring \<Rightarrow> page_state \<Rightarrow> page_state" where
  "setNewTag v p = p\<lparr>newTag := v\<rparr>"

subsection \<open>Tags (lines 97-112)\<close>

text \<open>
  \<^verbatim>\<open>if (newTag.trim() && !formData.tags.includes(newTag.trim())) {
    setFormData(prev => ({ ...prev, tags: [...prev.tags, newTag.trim()] }));
    setNewTag(''); }\<close>
  A handler runs on the state of the last render, and the page renders again after
  every event, so the \<open>formData\<close> the test reads and the \<open>prev\<close> the update receives are
  the same state.
\<close>

definition addTag :: "page_state \<Rightarrow> page_state" where
  "addTag p =
     (if trim (newTag p) \<noteq> [] \<and> trim (newTag p) \<notin> set (tags (formData p))
      then p\<lparr>formData := (formData p)\<lparr>tags := tags (formData p) @ [trim (newTag p)]\<rparr>,
             newTag := []\<rparr>
      else p)"

text \<open>\<^verbatim>\<open>setFormData(prev => ({ ...prev, tags: prev.tags.filter(t => t !== tag) }))\<close>\<close>

definition removeTag :: "jsstring \<Rightarrow> page_state \<Rightarrow> page_state" where
  "removeTag tag p = p\<lparr>formData := (formData p)\<lparr>tags := filter (\<lambda>t. t \<noteq> tag) (tags (formData p))\<rparr>\<rparr>"

text \<open>The events that touch the tag list, and a run of them.\<close>

datatype tag_event = TypeTag jsstring | AddTag | RemoveTag jsstring

fun tag_step :: "tag_event \<Rightarrow> page_state \<Rightarrow> page_state" where
  "tag_step (TypeTag v) p = setNewTag v p"
| "tag_step AddTag p = addTag p"
| "tag_step (RemoveTag tag) p = removeTag tag p"

definition tag_run :: "tag_event list \<Rightarrow> page_state \<Rightarrow> page_state" where
  "tag_run evs p = fold tag_step evs p"

subsection \<open>Validation and submission (lines 114-163)\<close>

text \<open>Assignment \<open>obj[k] = v\<close> to a property of a dictionary object.\<close>

fun assign :: "jsstring \<Rightarrow> jsstring \<Rightarrow> (jsstring \<times> jsstring) list \<Rightarrow> (jsstring \<times> jsstring) list" where
  "assign k v [] = [(k, v)]"
| "assign k v (p # ps) = (if fst p = k then (k, v) # ps else p # assign k v ps)"

definition Object_keys :: "(jsstring \<times> jsstring) list \<Rightarrow> jsstring list" where
  "Object_keys obj = map fst obj"

text \<open>
  The five checks of \<open>validateForm\<close>, each on the object the previous one left. A string
  is falsy exactly when it is empty.
\<close>

definition check_name :: "CreateGroupRequest \<Rightarrow> (jsstring \<times> jsstring) list \<Rightarrow> (jsstring \<times> jsstring) list" where
  "check_name fd newErrors =
     (if trim (name fd) = [] then assign (lit ''name'') (lit ''Group name is required'') newErrors
      else if length (name fd) < 3
      then assign (lit ''name'') (lit ''Group name must be at least 3 characters'') newErrors
      else newErrors)"

definition check_description :: "CreateGroupRequest \<Rightarrow> (jsstring \<times> jsstring) list \<Rightarrow> (jsstring \<times> jsstring) list" where
  "check_description fd newErrors =
     (if trim (description fd) = []
      then assign (lit ''description'') (lit ''Description is required'') newErrors
      else if length (description fd) < 10
      then assign (lit ''description'') (lit ''Description must be at least 10 characters'') newErrors
      else newErrors)"

definition check_category :: "CreateGroupRequest \<Rightarrow> (jsstring \<times> jsstring) list \<Rightarrow> (jsstring \<times> jsstring) list" where
  "check_category fd newErrors =
     (if category fd = [] then assign (lit ''category'') (lit ''Category is required'') newErrors
      else newErrors)"

definition check_industry :: "CreateGroupRequest \<Rightarrow> (jsstring \<times> jsstring) list \<Rightarrow> (jsstring \<times> jsstring) list" where
  "check_industry fd newErrors =
     (if industry fd = [] then assign (lit ''industry'') (lit ''Industry is required'') newErrors
      else newErrors)"

definition check_max_members :: "CreateGroupRequest \<Rightarrow> (jsstring \<times> jsstring) list \<Rightarrow> (jsstring \<times> jsstring) list" where
  "check_max_members fd newErrors =
     (if max_members fd < 2 \<or> max_members fd > 1000
      then assign (lit ''max_members'') (lit ''Maximum members must be between 2 and 1000'') newErrors
      else newErrors)"

definition newErrors_of :: "CreateGroupRequest \<Rightarrow> (jsstring \<times> jsstring) list" where
  "newErrors_of fd =
     check_max_members fd (check_industry fd (check_category fd
       (check_description fd (check_name fd []))))"

text \<open>
  \<open>validateForm\<close> stores the errors and returns whether there are none:
  \<^verbatim>\<open>setErrors(newErrors); return Object.keys(newErrors).length === 0;\<close>
\<close>

definition validateForm :: "page_state \<Rightarrow> bool \<times> page_state" where
  "validateForm p =
     (let newErrors = newErrors_of (formData p)
      in (length (Object_keys newErrors) = 0, p\<lparr>errors := newErrors\<rparr>))"

text \<open>
  What the server answers to \<open>apiService.createGroup\<close>: the created group, of which the
  page reads the \<open>id\<close>, or a failure, of which it reads the \<open>message\<close> (possibly absent).
\<close>

datatype createGroup_reply = Created jsstring | Failed "jsstring option"

text \<open>
  The outcome of a submission: the new state, the API calls made, and the path the page
  navigates to, if any. \<open>error.message || 'Failed to create group'\<close> takes the default for
  an absent or empty message.
\<close>

definition handleSubmit :: "createGroup_reply \<Rightarrow> page_state \<Rightarrow> page_state \<times> api_call list \<times> jsstring option" where
  "handleSubmit reply p =
     (case validateForm p of (valid, p1) \<Rightarrow>
        if \<not> valid then (p1, [], None)
        else (case reply of
                Created group_id \<Rightarrow>
                  (p1\<lparr>isSubmitting := False\<rparr>, [createGroup], Some (lit ''/groups/'' @ group_id))
              | Failed message \<Rightarrow>
                  (p1\<lparr>errors := [(lit ''submit'',
                                   case message of
                                     None \<Rightarrow> lit ''Failed to create group''
                                   | Some m \<Rightarrow> if m \<noteq> [] then m else lit ''Failed to create group'')],
                      isSubmitting := False\<rparr>,
                   [createGroup], None)))"

subsection \<open>The privacy menu (lines 316-328)\<close>

text \<open>The \<open>MenuItem\<close>s of the privacy \<open>Select\<close>, each with its value and its label.\<close>

definition privacy_menu :: "(jsstring \<times> jsstring) list" where
  "privacy_menu =
     [(lit ''public'', lit ''Public - Anyone can find and join''),
      (lit ''private'', lit ''Private - Hidden from search''),
      (lit ''invite_only'', lit ''Invite Only - Requires invitation'')]"


section \<open>The Group Aggregate\<close>

text \<open>
  Modelled from the spec: the backend's group store and its mutations (create, update,
  deactivate, add and remove a member) are not in the frontend sources; the client only
  declares \<open>max_members\<close> and \<open>current_members\<close> in \<open>Group\<close>. The definitions of this
  section follow sections 3 and 4.3 of the specification. A group keeps its capacity,
  its member counter, its roster (one membership per user, with a role) and its active
  flag.
\<close>

datatype role = Owner | Admin | Member


record GroupAggregate =
  group_max_members :: int
  group_current_members :: int
  group_memberships :: "(jsstring \<times> role) list"
  group_active :: bool



text \<open>
  Modelled from the spec: \<open>create(owner, attrs)\<close> gives a new group and the owner's
  membership, atomically. Of the attributes, the capacity is the one the aggregate
  reads; the specification states no condition on it.
\<close>

definition create :: "jsstring \<Rightarrow> int \<Rightarrow> GroupAggregate" where
  "create owner max_members_attr =
     \<lparr>group_max_members = max_members_attr, group_current_members = 1,
      group_memberships = [(owner, Owner)], group_active = True\<rparr>"











section \<open>Properties of the response interceptor\<close>

lemma receive_effects:
  "fst (receive r) =
     (if status r = 401
      then [RemoveItem (lit ''auth_token''), RemoveItem (lit ''user''),
            SetLocationHref (lit ''/login'')]
      else [])"
  by (simp add: receive_def settle_def validateStatus_def response_onFulfilled_def
      response_onRejected_def)

text \<open>
  C1: for every HTTP response the service receives, and for every error the response
  interceptor handles, the logout effect (remove \<open>auth_token\<close>, remove \<open>user\<close>, go to
  \<open>/login\<close>) is performed if and only if the response status is 401; otherwise nothing is
  performed, in particular for status 403. Running the logout effect clears both keys
  and sets the location.
\<close>

theorem response_interceptor_logout_iff_401:
  "(fst (receive r) = [RemoveItem (lit ''auth_token''), RemoveItem (lit ''user''),
                       SetLocationHref (lit ''/login'')]) = (status r = 401)
   \<and> (fst (receive r) = []) = (status r \<noteq> 401)
   \<and> fst (receive (r\<lparr>status := 403\<rparr>)) = []
   \<and> (fst (response_onRejected e) = [RemoveItem (lit ''auth_token''), RemoveItem (lit ''user''),
                       SetLocationHref (lit ''/login'')])
       = (map_option status (response e) = Some 401)
   \<and> (fst (response_onRejected e) = []) = (map_option status (response e) \<noteq> Some 401)
   \<and> run_effects [RemoveItem (lit ''auth_token''), RemoveItem (lit ''user''),
                   SetLocationHref (lit ''/login'')] b
       = b\<lparr>localStorage := (localStorage b)(lit ''auth_token'' := None, lit ''user'' := None),
            href := lit ''/login''\<rparr>"
  by (simp add: receive_effects response_onRejected_def run_effects_def)

theorem response_interceptor_logout_iff_401_witness:
  "fst (receive \<lparr>status = 401\<rparr>)
     = [RemoveItem (lit ''auth_token''), RemoveItem (lit ''user''), SetLocationHref (lit ''/login'')]
   \<and> fst (receive \<lparr>status = 403\<rparr>) = []
   \<and> fst (receive \<lparr>status = 200\<rparr>) = []
   \<and> fst (response_onRejected \<lparr>response = None\<rparr>) = []"
  using response_interceptor_logout_iff_401
          [of "\<lparr>status = 401\<rparr>" "\<lparr>response = None\<rparr>" "\<lparr>localStorage = Map.empty, href = []\<rparr>"]
        response_interceptor_logout_iff_401
          [of "\<lparr>status = 403\<rparr>" "\<lparr>response = None\<rparr>" "\<lparr>localStorage = Map.empty, href = []\<rparr>"]
        response_interceptor_logout_iff_401
          [of "\<lparr>status = 200\<rparr>" "\<lparr>response = None\<rparr>" "\<lparr>localStorage = Map.empty, href = []\<rparr>"]
  by simp


section \<open>Properties of the request interceptor\<close>

text \<open>
  C2, as stated, fails for a stored empty token: \<open>localStorage\<close> holds a value for
  \<open>auth_token\<close>, the empty string, and the request for the current user leaves without
  an \<open>Authorization\<close> header.
\<close>

theorem request_interceptor_empty_token_counterexample:
  "getItem \<lparr>localStorage = [lit ''auth_token'' \<mapsto> []], href = []\<rparr> (lit ''auth_token'') = Some []
   \<and> headers (send \<lparr>localStorage = [lit ''auth_token'' \<mapsto> []], href = []\<rparr> getCurrentUser)
        (lit ''Authorization'')
      \<noteq> Some (lit ''Bearer '' @ [])"
  by (simp add: send_def request_onFulfilled_def getItem_def json_request_def lit_def)

text \<open>
  C2, amended: if \<open>localStorage\<close> holds a non-empty \<open>auth_token\<close>, the interceptor sets
  the \<open>Authorization\<close> header to \<open>Bearer\<close>, a space and the token, and changes nothing
  else; if it holds none, or the empty string, the interceptor returns the request as it
  was, adding no header.
\<close>

theorem request_interceptor_bearer:
  "(getItem b (lit ''auth_token'') = Some token \<and> token \<noteq> [] \<longrightarrow>
      request_onFulfilled b config
        = config\<lparr>headers := (headers config)(lit ''Authorization'' \<mapsto> lit ''Bearer '' @ token)\<rparr>
      \<and> headers (request_onFulfilled b config) (lit ''Authorization'')
        = Some (lit ''Bearer '' @ token))
   \<and> (getItem b (lit ''auth_token'') = None \<or> getItem b (lit ''auth_token'') = Some [] \<longrightarrow>
      request_onFulfilled b config = config)"
  by (auto simp: request_onFulfilled_def)

theorem request_interceptor_bearer_witness:
  "headers (send \<lparr>localStorage = [lit ''auth_token'' \<mapsto> lit ''t0k''], href = []\<rparr> getCurrentUser)
     (lit ''Authorization'') = Some (lit ''Bearer t0k'')
   \<and> send \<lparr>localStorage = Map.empty, href = []\<rparr> getCurrentUser = request_of getCurrentUser
   \<and> send \<lparr>localStorage = [lit ''auth_token'' \<mapsto> []], href = []\<rparr> getCurrentUser
       = request_of getCurrentUser"
  using request_interceptor_bearer
          [of "\<lparr>localStorage = [lit ''auth_token'' \<mapsto> lit ''t0k''], href = []\<rparr>" "lit ''t0k''"
              "request_of getCurrentUser"]
        request_interceptor_bearer
          [of "\<lparr>localStorage = Map.empty, href = []\<rparr>" "[]" "request_of getCurrentUser"]
        request_interceptor_bearer
          [of "\<lparr>localStorage = [lit ''auth_token'' \<mapsto> []], href = []\<rparr>" "[]"
              "request_of getCurrentUser"]
  by (simp add: send_def getItem_def lit_def)


section \<open>Properties of the invitation endpoints\<close>

lemma send_method_url:
  "http_method (send b c) = http_method (request_of c) \<and> url (send b c) = url (request_of c)"
  by (simp add: send_def request_onFulfilled_def split: option.splits)

text \<open>
  C5, as stated, fails: the request by which the client takes up an invitation goes to
  \<open>/invitations/{id}/accept\<close>, not to a path of the form \<open>/invitations/{token}/redeem\<close>.
\<close>

theorem accept_not_redeem_counterexample:
  "url (request_of (acceptInvitation (lit ''tok''))) = lit ''/invitations/tok/accept''
   \<and> \<not> suffix (lit ''/redeem'') (url (request_of (acceptInvitation (lit ''tok''))))"
  by (simp add: json_request_def lit_def suffix_to_prefix)

text \<open>
  C5, amended: the client addresses an invitation by its id, and for every id the request
  that takes up the invitation leaves the service as a \<open>POST\<close> whose URL string, as handed
  to axios, is \<open>/invitations/\<close>, the id as given and \<open>/accept\<close>, which is not that string
  with \<open>/redeem\<close> in place of \<open>/accept\<close>; declining is a \<open>POST\<close> on \<open>/invitations/\<close>, the id
  and \<open>/decline\<close>, and cancelling a \<open>DELETE\<close> on \<open>/invitations/\<close> and the id.
\<close>

theorem invitation_endpoints:
  "http_method (send b (acceptInvitation i)) = POST
   \<and> url (send b (acceptInvitation i)) = lit ''/invitations/'' @ i @ lit ''/accept''
   \<and> url (send b (acceptInvitation i)) \<noteq> lit ''/invitations/'' @ i @ lit ''/redeem''
   \<and> http_method (send b (declineInvitation i)) = POST
   \<and> url (send b (declineInvitation i)) = lit ''/invitations/'' @ i @ lit ''/decline''
   \<and> http_method (send b (cancelInvitation i)) = DELETE
   \<and> url (send b (cancelInvitation i)) = lit ''/invitations/'' @ i"
proof -
  have "lit ''/accept'' \<noteq> lit ''/redeem''"
    by (simp add: lit_def)
  then have "lit ''/invitations/'' @ i @ lit ''/accept'' \<noteq> lit ''/invitations/'' @ i @ lit ''/redeem''"
    by simp
  then show ?thesis
    by (simp add: send_method_url json_request_def)
qed

theorem invitation_endpoints_witness:
  "http_method (send \<lparr>localStorage = [lit ''auth_token'' \<mapsto> lit ''t0k''], href = []\<rparr>
                  (acceptInvitation (lit ''inv1''))) = POST
   \<and> url (send \<lparr>localStorage = [lit ''auth_token'' \<mapsto> lit ''t0k''], href = []\<rparr>
            (acceptInvitation (lit ''inv1''))) = lit ''/invitations/inv1/accept''
   \<and> url (send \<lparr>localStorage = [lit ''auth_token'' \<mapsto> lit ''t0k''], href = []\<rparr>
            (cancelInvitation (lit ''inv1''))) = lit ''/invitations/inv1''"
  using invitation_endpoints
          [of "\<lparr>localStorage = [lit ''auth_token'' \<mapsto> lit ''t0k''], href = []\<rparr>" "lit ''inv1''"]
  by (simp add: lit_def)


section \<open>Properties of the data declarations\<close>

lemma conforms_Required:
  "conforms I obj \<Longrightarrow> Required n t \<in> set I \<Longrightarrow> \<exists>v. obj n = Some v \<and> has_type t v"
  by (force simp: conforms_def list_all_iff split: option.splits)

lemma has_type_TLiteral: "has_type (TLiteral ls) v \<longleftrightarrow> (\<exists>s\<in>set ls. v = JString s)"
  by (cases v) auto

lemma has_type_TString: "has_type TString v \<longleftrightarrow> (\<exists>s. v = JString s)"
  by (cases v) auto

lemma field_ok_other: "field_name f \<noteq> n \<Longrightarrow> field_ok (obj(n \<mapsto> v)) f = field_ok obj f"
  by (cases f) auto

lemma conforms_update:
  "conforms I obj \<Longrightarrow> \<forall>f\<in>set I. field_name f = n \<longrightarrow> field_ok (obj(n \<mapsto> v)) f
   \<Longrightarrow> conforms I (obj(n \<mapsto> v))"
  unfolding conforms_def list_all_iff
  by (metis field_ok_other)

subsection \<open>Invitation status\<close>

lemma Invitation_status_declared:
  "Required (lit ''status'')
     (TLiteral [lit ''pending'', lit ''accepted'', lit ''declined'', lit ''expired''])
   \<in> set Invitation_interface"
  by (simp add: Invitation_interface_def)

lemma Invitation_status_values:
  "conforms Invitation_interface invitation \<Longrightarrow>
   \<exists>s\<in>{lit ''pending'', lit ''accepted'', lit ''declined'', lit ''expired''}.
     invitation (lit ''status'') = Some (JString s)"
  using conforms_Required [OF _ Invitation_status_declared, of invitation]
  by (auto simp: has_type_TLiteral)

lemma Invitation_status_admits:
  "conforms Invitation_interface invitation \<Longrightarrow>
   s \<in> {lit ''pending'', lit ''accepted'', lit ''declined'', lit ''expired''} \<Longrightarrow>
   conforms Invitation_interface (invitation(lit ''status'' \<mapsto> JString s))"
  apply (rule conforms_update, assumption)
  apply (simp add: Invitation_interface_def)
  apply (auto simp: lit_def)
  done

text \<open>
  C3, as stated, fails: an \<open>Invitation\<close> whose status is \<open>pending\<close> conforms to the
  interface, and \<open>pending\<close> is none of \<open>active\<close>, \<open>deactivated\<close>, \<open>expired\<close>, \<open>exhausted\<close>.
\<close>

theorem Invitation_status_counterexample:
  "conforms Invitation_interface
     [lit ''id'' \<mapsto> JString (lit ''i1''), lit ''group_id'' \<mapsto> JString (lit ''g1''),
      lit ''group_name'' \<mapsto> JString (lit ''Buyers''), lit ''invited_by'' \<mapsto> JString (lit ''u1''),
      lit ''invited_by_name'' \<mapsto> JString (lit ''Ann''),
      lit ''invited_email'' \<mapsto> JString (lit ''bob@x.io''),
      lit ''status'' \<mapsto> JString (lit ''pending''), lit ''role'' \<mapsto> JString (lit ''member''),
      lit ''created_at'' \<mapsto> JString (lit ''2024-01-01''),
      lit ''expires_at'' \<mapsto> JString (lit ''2024-02-01'')]
   \<and> lit ''pending'' \<notin> {lit ''active'', lit ''deactivated'', lit ''expired'', lit ''exhausted''}"
  by (simp add: conforms_def Invitation_interface_def lit_def)

text \<open>
  C3, amended: every \<open>Invitation\<close> record's status is one of the four values \<open>pending\<close>,
  \<open>accepted\<close>, \<open>declined\<close>, \<open>expired\<close>: the property is declared with exactly this union,
  every conforming record has one of the four, and each of the four is admitted.
\<close>

theorem Invitation_status_union:
  "declared Invitation_interface (lit ''status'')
     = Some (Required (lit ''status'')
         (TLiteral [lit ''pending'', lit ''accepted'', lit ''declined'', lit ''expired'']))
   \<and> (conforms Invitation_interface invitation \<longrightarrow>
        (\<exists>s\<in>{lit ''pending'', lit ''accepted'', lit ''declined'', lit ''expired''}.
           invitation (lit ''status'') = Some (JString s)))
   \<and> (conforms Invitation_interface invitation
        \<and> s \<in> {lit ''pending'', lit ''accepted'', lit ''declined'', lit ''expired''} \<longrightarrow>
        conforms Invitation_interface (invitation(lit ''status'' \<mapsto> JString s)))"
proof -
  have "declared Invitation_interface (lit ''status'')
     = Some (Required (lit ''status'')
         (TLiteral [lit ''pending'', lit ''accepted'', lit ''declined'', lit ''expired'']))"
    by (simp add: declared_def Invitation_interface_def lit_def)
  then show ?thesis
    using Invitation_status_values [of invitation] Invitation_status_admits [of invitation s]
    by blast
qed

theorem Invitation_status_union_witness:
  "conforms Invitation_interface
     [lit ''id'' \<mapsto> JString (lit ''i1''), lit ''group_id'' \<mapsto> JString (lit ''g1''),
      lit ''group_name'' \<mapsto> JString (lit ''Buyers''), lit ''invited_by'' \<mapsto> JString (lit ''u1''),
      lit ''invited_by_name'' \<mapsto> JString (lit ''Ann''),
      lit ''invited_email'' \<mapsto> JString (lit ''bob@x.io''),
      lit ''status'' \<mapsto> JString (lit ''pending''), lit ''role'' \<mapsto> JString (lit ''member''),
      lit ''created_at'' \<mapsto> JString (lit ''2024-01-01''),
      lit ''expires_at'' \<mapsto> JString (lit ''2024-02-01'')]
   \<and> lit ''declined'' \<in> {lit ''pending'', lit ''accepted'', lit ''declined'', lit ''expired''}
   \<and> conforms Invitation_interface
     ([lit ''id'' \<mapsto> JString (lit ''i1''), lit ''group_id'' \<mapsto> JString (lit ''g1''),
      lit ''group_name'' \<mapsto> JString (lit ''Buyers''), lit ''invited_by'' \<mapsto> JString (lit ''u1''),
      lit ''invited_by_name'' \<mapsto> JString (lit ''Ann''),
      lit ''invited_email'' \<mapsto> JString (lit ''bob@x.io''),
      lit ''status'' \<mapsto> JString (lit ''pending''), lit ''role'' \<mapsto> JString (lit ''member''),
      lit ''created_at'' \<mapsto> JString (lit ''2024-01-01''),
      lit ''expires_at'' \<mapsto> JString (lit ''2024-02-01'')]
      (lit ''status'' \<mapsto> JString (lit ''declined'')))"
  using Invitation_status_union
          [of "[lit ''id'' \<mapsto> JString (lit ''i1''), lit ''group_id'' \<mapsto> JString (lit ''g1''),
      lit ''group_name'' \<mapsto> JString (lit ''Buyers''), lit ''invited_by'' \<mapsto> JString (lit ''u1''),
      lit ''invited_by_name'' \<mapsto> JString (lit ''Ann''),
      lit ''invited_email'' \<mapsto> JString (lit ''bob@x.io''),
      lit ''status'' \<mapsto> JString (lit ''pending''), lit ''role'' \<mapsto> JString (lit ''member''),
      lit ''created_at'' \<mapsto> JString (lit ''2024-01-01''),
      lit ''expires_at'' \<mapsto> JString (lit ''2024-02-01'')]" "lit ''declined''"]
  by (simp add: conforms_def Invitation_interface_def lit_def)

subsection \<open>Invitation mode, recipient and token\<close>

lemma Invitation_email_declared:
  "Required (lit ''invited_email'') TString \<in> set Invitation_interface"
  by (simp add: Invitation_interface_def)

lemma CreateInvitationRequest_email_declared:
  "Required (lit ''email'') TString \<in> set CreateInvitationRequest_interface"
  by (simp add: CreateInvitationRequest_interface_def)

text \<open>
  C4, as stated, fails: \<open>Invitation\<close> declares no \<open>mode\<close> and no \<open>token\<close> property, and a
  creation request in link mode that names no recipient email is not a
  \<open>CreateInvitationRequest\<close>.
\<close>

theorem Invitation_mode_counterexample:
  "declared Invitation_interface (lit ''mode'') = None
   \<and> declared Invitation_interface (lit ''token'') = None
   \<and> \<not> conforms CreateInvitationRequest_interface
        [lit ''group_id'' \<mapsto> JString (lit ''g1''), lit ''role'' \<mapsto> JString (lit ''member''),
         lit ''mode'' \<mapsto> JString (lit ''link'')]"
  by (simp add: declared_def conforms_def Invitation_interface_def
      CreateInvitationRequest_interface_def lit_def)

text \<open>
  C4, amended: an \<open>Invitation\<close> record declares exactly the properties \<open>id\<close>, \<open>group_id\<close>,
  \<open>group_name\<close>, \<open>invited_by\<close>, \<open>invited_by_name\<close>, \<open>invited_email\<close>, \<open>status\<close>, \<open>role\<close>,
  \<open>created_at\<close>, \<open>expires_at\<close> and \<open>message\<close> (no mode, usage counter, usage limit or
  token), and every record carries the invited email; a \<open>CreateInvitationRequest\<close>
  declares exactly \<open>group_id\<close>, \<open>email\<close>, \<open>role\<close> and \<open>message\<close>, and every request
  carries a recipient email.
\<close>

theorem Invitation_fields:
  "map field_name Invitation_interface
     = [lit ''id'', lit ''group_id'', lit ''group_name'', lit ''invited_by'',
        lit ''invited_by_name'', lit ''invited_email'', lit ''status'', lit ''role'',
        lit ''created_at'', lit ''expires_at'', lit ''message'']
   \<and> map field_name CreateInvitationRequest_interface
     = [lit ''group_id'', lit ''email'', lit ''role'', lit ''message'']
   \<and> (conforms Invitation_interface invitation \<longrightarrow>
        (\<exists>e. invitation (lit ''invited_email'') = Some (JString e)))
   \<and> (conforms CreateInvitationRequest_interface request \<longrightarrow>
        (\<exists>e. request (lit ''email'') = Some (JString e)))"
proof -
  have "map field_name Invitation_interface
     = [lit ''id'', lit ''group_id'', lit ''group_name'', lit ''invited_by'',
        lit ''invited_by_name'', lit ''invited_email'', lit ''status'', lit ''role'',
        lit ''created_at'', lit ''expires_at'', lit ''message'']"
    by (simp add: Invitation_interface_def)
  moreover have "map field_name CreateInvitationRequest_interface
     = [lit ''group_id'', lit ''email'', lit ''role'', lit ''message'']"
    by (simp add: CreateInvitationRequest_interface_def)
  moreover have "conforms Invitation_interface invitation \<longrightarrow>
        (\<exists>e. invitation (lit ''invited_email'') = Some (JString e))"
    using conforms_Required [OF _ Invitation_email_declared, of invitation]
    by (auto simp: has_type_TString)
  moreover have "conforms CreateInvitationRequest_interface request \<longrightarrow>
        (\<exists>e. request (lit ''email'') = Some (JString e))"
    using conforms_Required [OF _ CreateInvitationRequest_email_declared, of request]
    by (auto simp: has_type_TString)
  ultimately show ?thesis by blast
qed

theorem Invitation_fields_witness:
  "conforms Invitation_interface
     [lit ''id'' \<mapsto> JString (lit ''i1''), lit ''group_id'' \<mapsto> JString (lit ''g1''),
      lit ''group_name'' \<mapsto> JString (lit ''Buyers''), lit ''invited_by'' \<mapsto> JString (lit ''u1''),
      lit ''invited_by_name'' \<mapsto> JString (lit ''Ann''),
      lit ''invited_email'' \<mapsto> JString (lit ''bob@x.io''),
      lit ''status'' \<mapsto> JString (lit ''pending''), lit ''role'' \<mapsto> JString (lit ''member''),
      lit ''created_at'' \<mapsto> JString (lit ''2024-01-01''),
      lit ''expires_at'' \<mapsto> JString (lit ''2024-02-01'')]
   \<and> conforms CreateInvitationRequest_interface
     [lit ''group_id'' \<mapsto> JString (lit ''g1''), lit ''email'' \<mapsto> JString (lit ''bob@x.io''),
      lit ''role'' \<mapsto> JString (lit ''member'')]
   \<and> [lit ''group_id'' \<mapsto> JString (lit ''g1''), lit ''email'' \<mapsto> JString (lit ''bob@x.io''),
      lit ''role'' \<mapsto> JString (lit ''member'')] (lit ''email'') = Some (JString (lit ''bob@x.io''))"
  using Invitation_fields
          [of "[lit ''id'' \<mapsto> JString (lit ''i1''), lit ''group_id'' \<mapsto> JString (lit ''g1''),
      lit ''group_name'' \<mapsto> JString (lit ''Buyers''), lit ''invited_by'' \<mapsto> JString (lit ''u1''),
      lit ''invited_by_name'' \<mapsto> JString (lit ''Ann''),
      lit ''invited_email'' \<mapsto> JString (lit ''bob@x.io''),
      lit ''status'' \<mapsto> JString (lit ''pending''), lit ''role'' \<mapsto> JString (lit ''member''),
      lit ''created_at'' \<mapsto> JString (lit ''2024-01-01''),
      lit ''expires_at'' \<mapsto> JString (lit ''2024-02-01'')]"
              "[lit ''group_id'' \<mapsto> JString (lit ''g1''), lit ''email'' \<mapsto> JString (lit ''bob@x.io''),
      lit ''role'' \<mapsto> JString (lit ''member'')]"]
  by (simp add: conforms_def Invitation_interface_def CreateInvitationRequest_interface_def
      lit_def)

subsection \<open>Group privacy\<close>

lemma Group_privacy_declared:
  "Required (lit ''privacy'') (TLiteral [lit ''public'', lit ''private'', lit ''invite_only''])
   \<in> set Group_interface"
  by (simp add: Group_interface_def)

lemma Group_privacy_values:
  "conforms Group_interface g \<Longrightarrow>
   \<exists>s\<in>{lit ''public'', lit ''private'', lit ''invite_only''}.
     g (lit ''privacy'') = Some (JString s)"
  using conforms_Required [OF _ Group_privacy_declared, of g]
  by (auto simp: has_type_TLiteral)

lemma Group_privacy_admits:
  "conforms Group_interface g \<Longrightarrow>
   s \<in> {lit ''public'', lit ''private'', lit ''invite_only''} \<Longrightarrow>
   conforms Group_interface (g(lit ''privacy'' \<mapsto> JString s))"
  apply (rule conforms_update, assumption)
  apply (simp add: Group_interface_def)
  apply (auto simp: lit_def)
  done

text \<open>
  C7: every \<open>Group\<close> record's privacy is one of \<open>public\<close>, \<open>private\<close>, \<open>invite_only\<close> (the
  property is declared with exactly this union, every conforming record has one of the
  three, each of the three is admitted), and the values of the privacy menu of the
  group-creation form are exactly these three, each once; they are the literals of the
  form's own privacy type.
\<close>

theorem Group_privacy_choices:
  "declared Group_interface (lit ''privacy'')
     = Some (Required (lit ''privacy'')
         (TLiteral [lit ''public'', lit ''private'', lit ''invite_only'']))
   \<and> (conforms Group_interface g \<longrightarrow>
        (\<exists>s\<in>{lit ''public'', lit ''private'', lit ''invite_only''}.
           g (lit ''privacy'') = Some (JString s)))
   \<and> (conforms Group_interface g \<and> s \<in> {lit ''public'', lit ''private'', lit ''invite_only''} \<longrightarrow>
        conforms Group_interface (g(lit ''privacy'' \<mapsto> JString s)))
   \<and> map fst privacy_menu = [lit ''public'', lit ''private'', lit ''invite_only'']
   \<and> distinct (map fst privacy_menu)
   \<and> map fst privacy_menu = map privacy_literal [Public, Private, Invite_only]"
proof -
  have "declared Group_interface (lit ''privacy'')
     = Some (Required (lit ''privacy'')
         (TLiteral [lit ''public'', lit ''private'', lit ''invite_only'']))"
    by (simp add: declared_def Group_interface_def lit_def)
  moreover have "map fst privacy_menu = [lit ''public'', lit ''private'', lit ''invite_only'']"
    by (simp add: privacy_menu_def)
  moreover have "distinct (map fst privacy_menu)"
    by (simp add: privacy_menu_def lit_def)
  moreover have "map fst privacy_menu = map privacy_literal [Public, Private, Invite_only]"
    by (simp add: privacy_menu_def)
  ultimately show ?thesis
    using Group_privacy_values [of g] Group_privacy_admits [of g s]
    by blast
qed

theorem Group_privacy_choices_witness:
  "conforms Group_interface
     [lit ''id'' \<mapsto> JString (lit ''g1''), lit ''name'' \<mapsto> JString (lit ''Buyers''),
      lit ''description'' \<mapsto> JString (lit ''Bulk paper buying''),
      lit ''category'' \<mapsto> JString (lit ''Retail''),
      lit ''industry'' \<mapsto> JString (lit ''E-commerce''),
      lit ''privacy'' \<mapsto> JString (lit ''public''), lit ''max_members'' \<mapsto> JNumber 50,
      lit ''current_members'' \<mapsto> JNumber 1, lit ''created_by'' \<mapsto> JString (lit ''u1''),
      lit ''created_at'' \<mapsto> JString (lit ''2024-01-01''),
      lit ''updated_at'' \<mapsto> JString (lit ''2024-01-01''),
      lit ''is_active'' \<mapsto> JBoolean True, lit ''tags'' \<mapsto> JStringArray [lit ''paper'']]
   \<and> lit ''invite_only'' \<in> {lit ''public'', lit ''private'', lit ''invite_only''}
   \<and> conforms Group_interface
     ([lit ''id'' \<mapsto> JString (lit ''g1''), lit ''name'' \<mapsto> JString (lit ''Buyers''),
      lit ''description'' \<mapsto> JString (lit ''Bulk paper buying''),
      lit ''category'' \<mapsto> JString (lit ''Retail''),
      lit ''industry'' \<mapsto> JString (lit ''E-commerce''),
      lit ''privacy'' \<mapsto> JString (lit ''public''), lit ''max_members'' \<mapsto> JNumber 50,
      lit ''current_members'' \<mapsto> JNumber 1, lit ''created_by'' \<mapsto> JString (lit ''u1''),
      lit ''created_at'' \<mapsto> JString (lit ''2024-01-01''),
      lit ''updated_at'' \<mapsto> JString (lit ''2024-01-01''),
      lit ''is_active'' \<mapsto> JBoolean True, lit ''tags'' \<mapsto> JStringArray [lit ''paper'']]
      (lit ''privacy'' \<mapsto> JString (lit ''invite_only'')))"
  using Group_privacy_choices
          [of "[lit ''id'' \<mapsto> JString (lit ''g1''), lit ''name'' \<mapsto> JString (lit ''Buyers''),
      lit ''description'' \<mapsto> JString (lit ''Bulk paper buying''),
      lit ''category'' \<mapsto> JString (lit ''Retail''),
      lit ''industry'' \<mapsto> JString (lit ''E-commerce''),
      lit ''privacy'' \<mapsto> JString (lit ''public''), lit ''max_members'' \<mapsto> JNumber 50,
      lit ''current_members'' \<mapsto> JNumber 1, lit ''created_by'' \<mapsto> JString (lit ''u1''),
      lit ''created_at'' \<mapsto> JString (lit ''2024-01-01''),
      lit ''updated_at'' \<mapsto> JString (lit ''2024-01-01''),
      lit ''is_active'' \<mapsto> JBoolean True, lit ''tags'' \<mapsto> JStringArray [lit ''paper'']]" "lit ''invite_only''"]
  by (simp add: conforms_def Group_interface_def lit_def)


section \<open>Properties of the reducer\<close>

text \<open>
  C8: \<open>authReducer\<close> preserves the invariant that an authenticated state has a user: if
  it holds of a state, it holds of the state after any action (the five of \<open>AuthAction\<close>
  or any other); it holds of the initial state; and \<open>AUTH_SUCCESS\<close> always gives
  \<open>isLoading = false\<close> and \<open>error = null\<close>.
\<close>

theorem authReducer_invariant:
  "((isAuthenticated state \<longrightarrow> user state \<noteq> None) \<longrightarrow>
      (isAuthenticated (authReducer state action) \<longrightarrow> user (authReducer state action) \<noteq> None))
   \<and> (isAuthenticated initialState \<longrightarrow> user initialState \<noteq> None)
   \<and> isLoading (authReducer state (AUTH_SUCCESS payload)) = False
   \<and> error (authReducer state (AUTH_SUCCESS payload)) = None"
  by (cases action) (simp_all add: initialState_def)

theorem authReducer_invariant_witness:
  "isAuthenticated
     \<lparr>user = Some
          \<lparr>uid = lit ''u1'', email = lit ''ann@x.io'', display_name = lit ''Ann'',
           photo_url = None, phone_number = None, company_name = None, job_title = None,
           industry = None, location = None, bio = None, created_at = lit ''2024-01-01'',
           updated_at = lit ''2024-01-01'', is_verified = True, is_active = True\<rparr>,
        isAuthenticated = True, isLoading = False, error = Some (lit ''stale'')\<rparr>
   \<and> user
     \<lparr>user = Some
          \<lparr>uid = lit ''u1'', email = lit ''ann@x.io'', display_name = lit ''Ann'',
           photo_url = None, phone_number = None, company_name = None, job_title = None,
           industry = None, location = None, bio = None, created_at = lit ''2024-01-01'',
           updated_at = lit ''2024-01-01'', is_verified = True, is_active = True\<rparr>,
        isAuthenticated = True, isLoading = False, error = Some (lit ''stale'')\<rparr> \<noteq> None
   \<and> isAuthenticated (authReducer
     \<lparr>user = Some
          \<lparr>uid = lit ''u1'', email = lit ''ann@x.io'', display_name = lit ''Ann'',
           photo_url = None, phone_number = None, company_name = None, job_title = None,
           industry = None, location = None, bio = None, created_at = lit ''2024-01-01'',
           updated_at = lit ''2024-01-01'', is_verified = True, is_active = True\<rparr>,
        isAuthenticated = True, isLoading = False, error = Some (lit ''stale'')\<rparr> CLEAR_ERROR)
   \<and> user (authReducer
     \<lparr>user = Some
          \<lparr>uid = lit ''u1'', email = lit ''ann@x.io'', display_name = lit ''Ann'',
           photo_url = None, phone_number = None, company_name = None, job_title = None,
           industry = None, location = None, bio = None, created_at = lit ''2024-01-01'',
           updated_at = lit ''2024-01-01'', is_verified = True, is_active = True\<rparr>,
        isAuthenticated = True, isLoading = False, error = Some (lit ''stale'')\<rparr> CLEAR_ERROR) \<noteq> None
   \<and> \<not> isAuthenticated (authReducer
     \<lparr>user = Some
          \<lparr>uid = lit ''u1'', email = lit ''ann@x.io'', display_name = lit ''Ann'',
           photo_url = None, phone_number = None, company_name = None, job_title = None,
           industry = None, location = None, bio = None, created_at = lit ''2024-01-01'',
           updated_at = lit ''2024-01-01'', is_verified = True, is_active = True\<rparr>,
        isAuthenticated = True, isLoading = False, error = Some (lit ''stale'')\<rparr> AUTH_LOGOUT)"
  using authReducer_invariant
          [of "\<lparr>user = Some
          \<lparr>uid = lit ''u1'', email = lit ''ann@x.io'', display_name = lit ''Ann'',
           photo_url = None, phone_number = None, company_name = None, job_title = None,
           industry = None, location = None, bio = None, created_at = lit ''2024-01-01'',
           updated_at = lit ''2024-01-01'', is_verified = True, is_active = True\<rparr>,
        isAuthenticated = True, isLoading = False, error = Some (lit ''stale'')\<rparr>" CLEAR_ERROR
              "\<lparr>uid = lit ''u1'', email = lit ''ann@x.io'', display_name = lit ''Ann'',
           photo_url = None, phone_number = None, company_name = None, job_title = None,
           industry = None, location = None, bio = None, created_at = lit ''2024-01-01'',
           updated_at = lit ''2024-01-01'', is_verified = True, is_active = True\<rparr>"]
        authReducer_invariant
          [of "\<lparr>user = Some
          \<lparr>uid = lit ''u1'', email = lit ''ann@x.io'', display_name = lit ''Ann'',
           photo_url = None, phone_number = None, company_name = None, job_title = None,
           industry = None, location = None, bio = None, created_at = lit ''2024-01-01'',
           updated_at = lit ''2024-01-01'', is_verified = True, is_active = True\<rparr>,
        isAuthenticated = True, isLoading = False, error = Some (lit ''stale'')\<rparr>" AUTH_LOGOUT
              "\<lparr>uid = lit ''u1'', email = lit ''ann@x.io'', display_name = lit ''Ann'',
           photo_url = None, phone_number = None, company_name = None, job_title = None,
           industry = None, location = None, bio = None, created_at = lit ''2024-01-01'',
           updated_at = lit ''2024-01-01'', is_verified = True, is_active = True\<rparr>"]
  by simp


section \<open>Properties of the group-creation form\<close>

subsection \<open>Validation\<close>

lemma assign_not_Nil: "assign k v obj \<noteq> []"
  by (cases obj) auto

lemma check_name_Nil:
  "check_name fd e = [] \<longleftrightarrow> e = [] \<and> trim (name fd) \<noteq> [] \<and> 3 \<le> length (name fd)"
  by (auto simp: check_name_def assign_not_Nil)

lemma check_description_Nil:
  "check_description fd e = [] \<longleftrightarrow>
     e = [] \<and> trim (description fd) \<noteq> [] \<and> 10 \<le> length (description fd)"
  by (auto simp: check_description_def assign_not_Nil)

lemma check_category_Nil: "check_category fd e = [] \<longleftrightarrow> e = [] \<and> category fd \<noteq> []"
  by (auto simp: check_category_def assign_not_Nil)

lemma check_industry_Nil: "check_industry fd e = [] \<longleftrightarrow> e = [] \<and> industry fd \<noteq> []"
  by (auto simp: check_industry_def assign_not_Nil)

lemma check_max_members_Nil:
  "check_max_members fd e = [] \<longleftrightarrow> e = [] \<and> 2 \<le> max_members fd \<and> max_members fd \<le> 1000"
  by (auto simp: check_max_members_def assign_not_Nil)

lemma newErrors_of_Nil:
  "newErrors_of fd = [] \<longleftrightarrow>
     (trim (name fd) \<noteq> [] \<and> 3 \<le> length (name fd)
      \<and> trim (description fd) \<noteq> [] \<and> 10 \<le> length (description fd)
      \<and> category fd \<noteq> [] \<and> industry fd \<noteq> []
      \<and> 2 \<le> max_members fd \<and> max_members fd \<le> 1000)"
  unfolding newErrors_of_def
  by (simp add: check_name_Nil check_description_Nil check_category_Nil check_industry_Nil
      check_max_members_Nil conj_ac)

lemma fst_validateForm: "fst (validateForm p) = (newErrors_of (formData p) = [])"
  by (simp add: validateForm_def Object_keys_def Let_def)

lemma handleSubmit_calls:
  "fst (snd (handleSubmit reply p)) = (if fst (validateForm p) then [createGroup] else [])"
  by (simp add: handleSubmit_def split: prod.splits createGroup_reply.splits)

text \<open>
  C9: \<open>validateForm\<close> returns true if and only if the trimmed name is non-empty and the
  name has at least 3 code units, the trimmed description is non-empty and the
  description has at least 10, category and industry are non-empty, and \<open>max_members\<close> is
  between 2 and 1000 inclusive; when it returns false, the submission makes no API call,
  whatever the server would answer.
\<close>

theorem validateForm_iff:
  "fst (validateForm p) =
     (trim (name (formData p)) \<noteq> [] \<and> 3 \<le> length (name (formData p))
      \<and> trim (description (formData p)) \<noteq> [] \<and> 10 \<le> length (description (formData p))
      \<and> category (formData p) \<noteq> [] \<and> industry (formData p) \<noteq> []
      \<and> 2 \<le> max_members (formData p) \<and> max_members (formData p) \<le> 1000)
   \<and> (\<not> fst (validateForm p) \<longrightarrow> fst (snd (handleSubmit reply p)) = [])"
  by (simp add: fst_validateForm newErrors_of_Nil handleSubmit_calls)

theorem validateForm_iff_witness:
  "\<not> fst (validateForm initial_page)
   \<and> fst (snd (handleSubmit (Created (lit ''g1'')) initial_page)) = []
   \<and> fst (validateForm
       \<lparr>formData =
        \<lparr>name = lit ''Buyers'', description = lit ''Bulk paper buying'',
         category = lit ''Retail'', industry = lit ''E-commerce'', privacy = Public,
         max_members = 50, tags = [], location = Some [], website = None,
         contact_email = None\<rparr>,
      newTag = [], errors = [], isSubmitting = False\<rparr>)"
  using validateForm_iff [of initial_page "Created (lit ''g1'')"]
        validateForm_iff
          [of "\<lparr>formData =
        \<lparr>name = lit ''Buyers'', description = lit ''Bulk paper buying'',
         category = lit ''Retail'', industry = lit ''E-commerce'', privacy = Public,
         max_members = 50, tags = [], location = Some [], website = None,
         contact_email = None\<rparr>,
      newTag = [], errors = [], isSubmitting = False\<rparr>" "Created (lit ''g1'')"]
  by (simp add: initial_page_def trim_def isWhiteSpace_def lit_def)

subsection \<open>Tags\<close>

lemma tags_addTag:
  "tags (formData (addTag p)) =
     (if trim (newTag p) \<noteq> [] \<and> trim (newTag p) \<notin> set (tags (formData p))
      then tags (formData p) @ [trim (newTag p)]
      else tags (formData p))"
  by (simp add: addTag_def)

lemma tags_removeTag:
  "tags (formData (removeTag tag p)) = filter (\<lambda>t. t \<noteq> tag) (tags (formData p))"
  by (simp add: removeTag_def)

lemma distinct_tag_step:
  "distinct (tags (formData p)) \<Longrightarrow> distinct (tags (formData (tag_step ev p)))"
  by (cases ev) (auto simp: tags_addTag tags_removeTag setNewTag_def)

lemma distinct_tag_run:
  "distinct (tags (formData p)) \<Longrightarrow> distinct (tags (formData (tag_run evs p)))"
  unfolding tag_run_def
  by (induction evs arbitrary: p) (auto simp: distinct_tag_step)

text \<open>
  C10: \<open>addTag\<close> appends the trimmed new tag when it is non-empty and not yet in the list,
  and otherwise leaves the list as it is; \<open>removeTag\<close> keeps the tags other than the given
  one, so that no occurrence of it is left; hence from a duplicate-free tag list, and so
  from the initial empty one, every run of typing, adding and removing leaves the tag
  list duplicate-free.
\<close>

theorem tags_distinct:
  "tags (formData (addTag p)) =
     (if trim (newTag p) \<noteq> [] \<and> trim (newTag p) \<notin> set (tags (formData p))
      then tags (formData p) @ [trim (newTag p)]
      else tags (formData p))
   \<and> tags (formData (removeTag tag p)) = filter (\<lambda>t. t \<noteq> tag) (tags (formData p))
   \<and> tag \<notin> set (tags (formData (removeTag tag p)))
   \<and> (distinct (tags (formData p)) \<longrightarrow> distinct (tags (formData (tag_run evs p))))
   \<and> distinct (tags (formData (tag_run evs initial_page)))"
proof -
  have "distinct (tags (formData initial_page))"
    by (simp add: initial_page_def)
  then have "distinct (tags (formData (tag_run evs initial_page)))"
    by (rule distinct_tag_run)
  then show ?thesis
    using distinct_tag_run [of p evs] by (simp add: tags_addTag tags_removeTag)
qed

theorem tags_distinct_witness:
  "distinct (tags (formData initial_page))
   \<and> tags (formData (tag_run [TypeTag (lit '' paper ''), AddTag, TypeTag (lit ''paper''), AddTag,
                               TypeTag (lit ''ink''), AddTag, RemoveTag (lit ''paper''),
                               TypeTag (lit ''  ''), AddTag] initial_page))
       = [lit ''ink'']
   \<and> distinct (tags (formData (tag_run [TypeTag (lit '' paper ''), AddTag, TypeTag (lit ''paper''),
                               AddTag, TypeTag (lit ''ink''), AddTag, RemoveTag (lit ''paper''),
                               TypeTag (lit ''  ''), AddTag] initial_page)))"
  using tags_distinct
          [of initial_page "[]"
              "[TypeTag (lit '' paper ''), AddTag, TypeTag (lit ''paper''), AddTag,
                TypeTag (lit ''ink''), AddTag, RemoveTag (lit ''paper''),
                TypeTag (lit ''  ''), AddTag]"]
  by (simp add: initial_page_def tag_run_def setNewTag_def addTag_def removeTag_def trim_def
      isWhiteSpace_def lit_def)


section \<open>Properties of the Group Aggregate\<close>













end
